theory Spec2Isabelle
  imports Main "HOL-Library.Sublist"
begin

section \<open>JavaScript values and strings\<close>

text \<open>
  Strings are byte lists (UTF-8). The values that reach the code from outside
  (\<^verbatim>\<open>argv.tag\<close>, \<^verbatim>\<open>argv.help\<close>, the type of a \<^verbatim>\<open>networkActivity\<close> event) are
  JavaScript values; \<open>JNumber\<close> carries the integral numbers, which JavaScript
  prints in plain decimal below \<open>10^21\<close>.
\<close>

datatype jsval = JUndefined | JBoolean bool | JNumber int | JString string

fun truthy :: "jsval \<Rightarrow> bool" where
  "truthy JUndefined = False"
| "truthy (JBoolean b) = b"
| "truthy (JNumber n) = (n \<noteq> 0)"
| "truthy (JString s) = (s \<noteq> [])"

fun digits :: "nat \<Rightarrow> string" where
  "digits n =
     (if n < 10 then [char_of (48 + n)]
      else digits (n div 10) @ [char_of (48 + n mod 10)])"

declare digits.simps [simp del]

text \<open>The conversion a template literal \<^verbatim>\<open>`${v}`\<close> applies to \<open>v\<close>.\<close>

fun toString :: "jsval \<Rightarrow> string" where
  "toString JUndefined = ''undefined''"
| "toString (JBoolean b) = (if b then ''true'' else ''false'')"
| "toString (JNumber n) = (if n < 0 then ''-'' @ digits (nat (- n)) else digits (nat n))"
| "toString (JString s) = s"

abbreviation NL :: char where "NL \<equiv> CHR 0x0A"

text \<open>
  \<^verbatim>\<open>s.split(sep)\<close>: the pieces of \<open>s\<close> between the occurrences of \<open>sep\<close>, found
  from the left and not overlapping; always at least one piece when \<open>sep\<close> is
  not empty. With the empty separator the pieces are the single characters.
\<close>

fun split_from :: "string \<Rightarrow> string \<Rightarrow> string \<Rightarrow> string list" where
  "split_from sep acc [] = [rev acc]"
| "split_from sep acc (c # cs) =
     (if sep \<noteq> [] \<and> prefix sep (c # cs)
      then rev acc # split_from sep [] (drop (length sep - 1) cs)
      else split_from sep (c # acc) cs)"

definition js_split :: "string \<Rightarrow> string \<Rightarrow> string list" where
  "js_split s sep = (if sep = [] then map (\<lambda>c. [c]) s else split_from sep [] s)"

text \<open>
  Array destructuring with a default, \<^verbatim>\<open>const [ a = '', b = '' ] = xs\<close>: the
  element at the position, or the empty string when the array is too short.
\<close>

definition element_or_empty :: "string list \<Rightarrow> nat \<Rightarrow> string" where
  "element_or_empty xs i = (if i < length xs then xs ! i else [])"

definition join_with :: "string \<Rightarrow> string list \<Rightarrow> string" where
  "join_with sep xs = (case xs of [] \<Rightarrow> [] | y # ys \<Rightarrow> y @ concat (map (\<lambda>z. sep @ z) ys))"

text \<open>\<^verbatim>\<open>toUpperCase\<close> on the ASCII letters; the script applies it to two literals
  whose other characters have no upper case.\<close>

definition toUpperCase :: "string \<Rightarrow> string" where
  "toUpperCase s =
     map (\<lambda>c. let n = (of_char c :: nat) in if 97 \<le> n \<and> n \<le> 122 then char_of (n - 32) else c) s"

section \<open>The release synchronisation script (tasks/rebaseWebClient)\<close>

subsection \<open>The process and its environment\<close>

text \<open>
  A JavaScript \<^verbatim>\<open>Error\<close> with its message. A rejected promise and a \<^verbatim>\<open>throw\<close>
  are the left injection of a sum.
\<close>

datatype error = Error (message: string)

text \<open>
  What the script takes from outside: \<^verbatim>\<open>child_process.exec\<close> runs a shell
  command in the world \<open>'w\<close> (the clone, its remotes, the network) and either
  fails with an error or yields the standard output; \<^verbatim>\<open>strip-ansi\<close>, \<^verbatim>\<open>chalk\<close>
  (by colour name) and \<^verbatim>\<open>dedent\<close> (the raw template strings and the
  interpolated values) are library functions.
\<close>

record 'w env =
  exec :: "string \<Rightarrow> 'w \<Rightarrow> (error + string) \<times> 'w"
  stripAnsi :: "string \<Rightarrow> string"
  chalk :: "string \<Rightarrow> string \<Rightarrow> string"
  dedent :: "string list \<Rightarrow> string list \<Rightarrow> string"

text \<open>
  The state of a run: the world, the commands handed to \<open>exec\<close> so far, and
  the calls of \<^verbatim>\<open>console.log\<close> so far, each with its list of arguments.
\<close>

record 'w state =
  world :: 'w
  trace :: "string list"
  console :: "string list list"

type_synonym ('w, 'a) prog = "'w state \<Rightarrow> (error + 'a) \<times> 'w state"

definition return :: "'a \<Rightarrow> ('w, 'a) prog" where
  "return a s = (Inr a, s)"

definition throw :: "error \<Rightarrow> ('w, 'a) prog" where
  "throw e s = (Inl e, s)"

text \<open>\<^verbatim>\<open>const a = await m; f(a)\<close>: a rejection of \<open>m\<close> skips the rest.\<close>

definition bind :: "('w, 'a) prog \<Rightarrow> ('a \<Rightarrow> ('w, 'b) prog) \<Rightarrow> ('w, 'b) prog" where
  "bind m f s = (case m s of (Inl e, s') \<Rightarrow> (Inl e, s') | (Inr a, s') \<Rightarrow> f a s')"

text \<open>\<^verbatim>\<open>try { await m } catch (e) { await h(e) }\<close>.\<close>

definition try_catch :: "('w, 'a) prog \<Rightarrow> (error \<Rightarrow> ('w, 'a) prog) \<Rightarrow> ('w, 'a) prog" where
  "try_catch m h s = (case m s of (Inl e, s') \<Rightarrow> h e s' | (Inr a, s') \<Rightarrow> (Inr a, s'))"

definition console_log :: "string list \<Rightarrow> ('w, unit) prog" where
  "console_log args s = (Inr (), s\<lparr>console := console s @ [args]\<rparr>)"

text \<open>The promisified \<^verbatim>\<open>exec\<close>: resolves to the standard output.\<close>

definition exec_cmd :: "'w env \<Rightarrow> string \<Rightarrow> ('w, string) prog" where
  "exec_cmd E command s =
     (case exec E command (world s) of
        (r, w') \<Rightarrow> (r, s\<lparr>world := w', trace := trace s @ [command]\<rparr>))"

definition check_mark :: string where
  "check_mark = [CHR 0xE2, CHR 0x9C, CHR 0x93]"

definition success :: "'w env \<Rightarrow> string \<Rightarrow> ('w, unit) prog" where
  "success E msg = console_log [chalk E ''green'' check_mark @ '' '' @ msg @ ''.'']"

text \<open>
  \<^verbatim>\<open>commandeVerbose\<close>: the same \<open>exec\<close>, the child's output piped to the
  terminal and not read by the script; resolves to nothing.
\<close>

definition commandeVerbose :: "'w env \<Rightarrow> string \<Rightarrow> ('w, unit) prog" where
  "commandeVerbose E command = bind (exec_cmd E command) (\<lambda>_. return ())"

subsection \<open>Release pointers\<close>

record release =
  hash :: string
  label :: string

text \<open>\<^verbatim>\<open>const [ output = '' ] = stripAnsi(stdout).split('\n')\<close>\<close>

definition first_line :: "'w env \<Rightarrow> string \<Rightarrow> string" where
  "first_line E stdout = element_or_empty (js_split (stripAnsi E stdout) [NL]) 0"

text \<open>\<^verbatim>\<open>const [ hash = '', label = '' ] = output.split('---'); return { hash, label }\<close>\<close>

definition hash_label :: "string \<Rightarrow> release" where
  "hash_label output =
     (let parts = js_split output ''---''
      in \<lparr>hash = element_or_empty parts 0, label = element_or_empty parts 1\<rparr>)"

definition latest_commit_cmd :: string where
  \<open>latest_commit_cmd = ''git log -1 --pretty=format:'%H---%s' --abbrev-commit''\<close>

definition getLatestCommit :: "'w env \<Rightarrow> ('w, release) prog" where
  "getLatestCommit E =
     bind (exec_cmd E latest_commit_cmd) (\<lambda>stdout.
     return (hash_label (first_line E stdout)))"

definition commit_by_name_cmd :: "string \<Rightarrow> string" where
  \<open>commit_by_name_cmd name = ''git log --pretty=format:'%H---%s' | grep -w "'' @ name @ ''"''\<close>

definition getCommitByName :: "'w env \<Rightarrow> jsval \<Rightarrow> ('w, release) prog" where
  "getCommitByName E name =
     bind (exec_cmd E (commit_by_name_cmd (toString name))) (\<lambda>stdout.
     return (hash_label (first_line E stdout)))"

record argv =
  help_flag :: jsval
  tag :: jsval

text \<open>The parameter decides whether to search; the search is for \<^verbatim>\<open>argv.tag\<close>.\<close>

definition getAngularRelease :: "'w env \<Rightarrow> argv \<Rightarrow> jsval \<Rightarrow> ('w, release) prog" where
  "getAngularRelease E av name =
     (if truthy name then getCommitByName E (tag av) else getLatestCommit E)"

definition public_subject_cmd :: string where
  \<open>public_subject_cmd =
     join_with '' && '' [''git checkout public --quiet'',
                         ''git log -1 --pretty=format:"%s" --abbrev-commit'']\<close>

definition checkout_v3_quiet :: string where
  "checkout_v3_quiet = ''git checkout v3 --quiet''"

definition getWebclientRelease :: "'w env \<Rightarrow> ('w, release) prog" where
  "getWebclientRelease E =
     bind (exec_cmd E public_subject_cmd) (\<lambda>stdout.
     bind (exec_cmd E checkout_v3_quiet) (\<lambda>_.
     getCommitByName E (JString (first_line E stdout))))"

subsection \<open>Precondition and remote bootstrap\<close>

definition current_branch_cmd :: string where
  "current_branch_cmd = ''git rev-parse --abbrev-ref HEAD''"

definition isDeployAbleBranch :: "'w env \<Rightarrow> ('w, unit) prog" where
  "isDeployAbleBranch E =
     bind (exec_cmd E current_branch_cmd) (\<lambda>stdout.
     if first_line E stdout \<noteq> ''v3''
     then throw (Error ''You must be on V3 to sync the webclient'')
     else return ())"

definition add_remote_cmd :: string where
  "add_remote_cmd =
     join_with '' && '' [''git remote add webclient git@github.com:ProtonMail/WebClient.git'',
                         ''git config remote.webclient.push upstream'',
                         ''git fetch webclient'',
                         ''git checkout -b public webclient/public'']"

definition addPublicRemote :: "'w env \<Rightarrow> ('w, unit) prog" where
  "addPublicRemote E =
     bind (exec_cmd E add_remote_cmd) (\<lambda>_. success E ''Add public remote'')"

definition has_remote_cmd :: string where
  "has_remote_cmd = ''git remote | grep webclient''"

definition hasPublicRemote :: "'w env \<Rightarrow> ('w, unit) prog" where
  "hasPublicRemote E =
     try_catch (bind (exec_cmd E has_remote_cmd) (\<lambda>_. success E ''Public remote exists''))
               (\<lambda>e. addPublicRemote E)"

subsection \<open>Synchronisation\<close>

definition pull_both_cmd :: string where
  "pull_both_cmd =
     join_with '' && '' [''git checkout v3'', ''git pull origin v3'',
                         ''git checkout public'', ''git pull webclient public'']"

definition cherry_pick_cmd :: "string \<Rightarrow> string \<Rightarrow> string" where
  "cherry_pick_cmd webclientHash latestHash =
     ''git cherry-pick -X theirs --allow-empty '' @ webclientHash @ ''..'' @ latestHash"

definition push_cmd :: string where
  "push_cmd = ''git push webclient public''"

definition syncWebclient :: "'w env \<Rightarrow> release \<Rightarrow> release \<Rightarrow> ('w, unit) prog" where
  "syncWebclient E webclientRelease latestRelease =
     bind (commandeVerbose E pull_both_cmd) (\<lambda>_.
     bind (commandeVerbose E (cherry_pick_cmd (hash webclientRelease) (hash latestRelease))) (\<lambda>_.
     bind (exec_cmd E push_cmd) (\<lambda>_.
     bind (exec_cmd E checkout_v3_quiet) (\<lambda>_.
     success E ''Sync webclient''))))"

subsection \<open>Help text and the top-level driver\<close>

definition glyph_left :: string where
  "glyph_left = [CHR 0xE2, CHR 0x9F, CHR 0x9E]"

definition glyph_arrow :: string where
  "glyph_arrow = [CHR 0xE2, CHR 0x9E, CHR 0x99]"

definition glyph_warning :: string where
  "glyph_warning = [CHR 0xE2, CHR 0x9A, CHR 0xA0]"

text \<open>The three raw strings of the \<^verbatim>\<open>dedent\<close> template of \<^verbatim>\<open>help\<close>.\<close>

definition help_raw :: "string list" where
  \<open>help_raw =
    [join_with [NL] [[], ''        ''],
     join_with [NL]
       [[],
        [],
        ''        This command will sync the Private repository and the public repository'',
        ''            '' @ glyph_arrow @ '' $ ./tasks/rebaseWebClient --tag=3.12.24'',
        ''                            or'',
        ''            '' @ glyph_arrow @ '' $ ./tasks/rebaseWebClient'',
        [],
        ''            - With the flag tag, you can deploy to webclient only commits until this tag'',
        ''            - Without you deploy commits until the latest available on Angular (ex: post release)'',
        [],
        [],
        ''        ''],
     join_with [NL]
       [[],
        [],
        ''        You will need if it fails to run until it's done.'',
        ''        cherry-pick can be a long task with some conflicts to resolve (rm/add)'',
        ''            $ git cherry-pick --continue'',
        ''            $ git push webclient public'',
        ''            $ git checkout v3'',
        [],
        ''    '']]\<close>

definition help_msg :: "'w env \<Rightarrow> string" where
  "help_msg E =
     dedent E help_raw
       [chalk E ''yellow'' (toUpperCase ('' '' @ glyph_left @ '' How to use the command ?'')),
        chalk E ''orange''
          (toUpperCase ('' '' @ glyph_warning @ glyph_warning @ glyph_warning @ '' Warning ''
                        @ glyph_warning @ glyph_warning @ glyph_warning))]"

definition help_fn :: "'w env \<Rightarrow> ('w, unit) prog" where
  "help_fn E = console_log [help_msg E]"

text \<open>\<^verbatim>\<open>JSON.stringify\<close> of a string, and of the two pointers with indent 2.\<close>

definition hex_digit :: "nat \<Rightarrow> char" where
  "hex_digit n = (if n < 10 then char_of (48 + n) else char_of (87 + n))"

definition json_escape :: "char \<Rightarrow> string" where
  "json_escape c =
     (let n = (of_char c :: nat) in
      if n = 0x22 then [CHR 0x5C, CHR 0x22]
      else if n = 0x5C then [CHR 0x5C, CHR 0x5C]
      else if n = 0x08 then [CHR 0x5C, CHR ''b'']
      else if n = 0x0C then [CHR 0x5C, CHR ''f'']
      else if n = 0x0A then [CHR 0x5C, CHR ''n'']
      else if n = 0x0D then [CHR 0x5C, CHR ''r'']
      else if n = 0x09 then [CHR 0x5C, CHR ''t'']
      else if n < 0x20
        then [CHR 0x5C, CHR ''u'', CHR ''0'', CHR ''0'', hex_digit (n div 16), hex_digit (n mod 16)]
      else [c])"

definition json_string :: "string \<Rightarrow> string" where
  "json_string s = [CHR 0x22] @ concat (map json_escape s) @ [CHR 0x22]"

definition json_release :: "release \<Rightarrow> string list" where
  "json_release r =
     [''    '' @ json_string ''hash'' @ '': '' @ json_string (hash r) @ '','',
      ''    '' @ json_string ''label'' @ '': '' @ json_string (label r)]"

definition json_releases :: "release \<Rightarrow> release \<Rightarrow> string" where
  "json_releases angularRelease webclientRelease =
     join_with [NL]
       ([''{'', ''  '' @ json_string ''angularRelease'' @ '': {''] @
        json_release angularRelease @
        [''  },'', ''  '' @ json_string ''webclientRelease'' @ '': {''] @
        json_release webclientRelease @
        [''  }'', ''}''])"

text \<open>The body of the \<^verbatim>\<open>try\<close> block, up to \<^verbatim>\<open>process.exit(0)\<close>.\<close>

definition workflow :: "'w env \<Rightarrow> argv \<Rightarrow> ('w, unit) prog" where
  "workflow E av =
     bind (isDeployAbleBranch E) (\<lambda>_.
     bind (hasPublicRemote E) (\<lambda>_.
     bind (getAngularRelease E av (tag av)) (\<lambda>angularRelease.
     bind (getWebclientRelease E) (\<lambda>webclientRelease.
     bind (console_log []) (\<lambda>_.
     bind (console_log [json_releases angularRelease webclientRelease]) (\<lambda>_.
     bind (console_log []) (\<lambda>_.
     syncWebclient E webclientRelease angularRelease)))))))"

text \<open>The \<^verbatim>\<open>catch\<close> block, up to \<^verbatim>\<open>process.exit(1)\<close>.\<close>

definition report :: "'w env \<Rightarrow> error \<Rightarrow> ('w, unit) prog" where
  "report E e =
     bind (console_log [chalk E ''magentaBright'' ('' '' @ glyph_warning @ '' ''),
                        chalk E ''red'' (message e)]) (\<lambda>_.
     bind (console_log []) (\<lambda>_.
     help_fn E))"

text \<open>
  The whole script: the exit status of the process and the final state. With
  \<^verbatim>\<open>argv.help\<close> set only the help text is printed and the process ends with
  status 0.
\<close>

definition main :: "'w env \<Rightarrow> argv \<Rightarrow> 'w state \<Rightarrow> nat \<times> 'w state" where
  "main E av s =
     (if truthy (help_flag av) then (0, snd (help_fn E s))
      else case workflow E av s of
             (Inr _, s') \<Rightarrow> (0, s')
           | (Inl e, s') \<Rightarrow> (1, snd (report E e s')))"

subsection \<open>The log format\<close>

text \<open>
  A commit as the script sees it: its identifier and the subject of its
  message. \<open>pretty\<close> is the line that \<^verbatim>\<open>git log --pretty=format:'%H---%s'\<close>
  prints for it. The line can be read back when the identifier is hexadecimal
  and the subject, a single line, does not contain the separator.
\<close>

type_synonym commit = "string \<times> string"

definition pretty :: "commit \<Rightarrow> string" where
  "pretty c = fst c @ ''---'' @ snd c"

fun occurs :: "string \<Rightarrow> string \<Rightarrow> bool" where
  "occurs sep [] = (sep = [])"
| "occurs sep (c # cs) = (prefix sep (c # cs) \<or> occurs sep cs)"


subsection \<open>A reference environment\<close>

text \<open>
  The script is verified against every environment. For concrete runs there
  is a small clone with linear histories that answers the commands the script
  issues: a branch is a list of commits, the most recent first;
  \<^verbatim>\<open>grep -w\<close> looks for its pattern literally, delimited by characters that
  are not letters, digits or underscores, and fails when no line matches, as
  \<^verbatim>\<open>grep\<close> does (exit status 1); a cherry-pick of a range without commits
  fails, as that of \<^verbatim>\<open>git\<close> does (\<^verbatim>\<open>empty commit set passed\<close>). Nothing is
  coloured, and the template is interpolated as it stands.
\<close>

record repo =
  checked_out :: string
  remote_names :: "string list"
  branches :: "(string \<times> commit list) list"

definition log_of :: "repo \<Rightarrow> string \<Rightarrow> commit list" where
  "log_of w b = (case map_of (branches w) b of None \<Rightarrow> [] | Some cs \<Rightarrow> cs)"

definition word_char :: "char \<Rightarrow> bool" where
  "word_char c =
     (let n = (of_char c :: nat)
      in (48 \<le> n \<and> n \<le> 57) \<or> (65 \<le> n \<and> n \<le> 90) \<or> (97 \<le> n \<and> n \<le> 122) \<or> n = 95)"

fun whole_word_from :: "string \<Rightarrow> char option \<Rightarrow> string \<Rightarrow> bool" where
  "whole_word_from p before [] = False"
| "whole_word_from p before (c # cs) =
     ((prefix p (c # cs)
       \<and> (case before of None \<Rightarrow> True | Some b \<Rightarrow> \<not> word_char b)
       \<and> (case drop (length p) (c # cs) of [] \<Rightarrow> True | a # _ \<Rightarrow> \<not> word_char a))
      \<or> whole_word_from p (Some c) cs)"

definition grep_w :: "string \<Rightarrow> string \<Rightarrow> bool" where
  "grep_w name line = (name \<noteq> [] \<and> whole_word_from name None line)"

definition failed :: "string \<Rightarrow> error" where
  "failed command = Error (''Command failed: '' @ command)"

definition cherry_pick_range :: "repo \<Rightarrow> string \<Rightarrow> string \<Rightarrow> commit list" where
  "cherry_pick_range w a b =
     takeWhile (\<lambda>c. fst c \<noteq> a) (dropWhile (\<lambda>c. fst c \<noteq> b) (log_of w ''v3''))"

definition cherry_pick_prefix :: string where
  "cherry_pick_prefix = ''git cherry-pick -X theirs --allow-empty ''"

definition grep_prefix :: string where
  \<open>grep_prefix = ''git log --pretty=format:'%H---%s' | grep -w "''\<close>

definition git_exec :: "string \<Rightarrow> repo \<Rightarrow> (error + string) \<times> repo" where
  "git_exec command w =
     (if command = current_branch_cmd then (Inr (checked_out w @ [NL]), w)
      else if command = has_remote_cmd then
        (if ''webclient'' \<in> set (remote_names w) then (Inr (''webclient'' @ [NL]), w)
         else (Inl (failed command), w))
      else if command = add_remote_cmd then
        (if ''webclient'' \<in> set (remote_names w) then (Inl (failed command), w)
         else (Inr [], w\<lparr>checked_out := ''public'',
                          remote_names := remote_names w @ [''webclient'']\<rparr>))
      else if command = latest_commit_cmd then
        (case log_of w (checked_out w) of
           [] \<Rightarrow> (Inl (failed command), w)
         | c # _ \<Rightarrow> (Inr (pretty c), w))
      else if command = public_subject_cmd then
        (case log_of w ''public'' of
           [] \<Rightarrow> (Inl (failed command), w)
         | c # _ \<Rightarrow> (Inr (snd c), w\<lparr>checked_out := ''public''\<rparr>))
      else if command = checkout_v3_quiet then (Inr [], w\<lparr>checked_out := ''v3''\<rparr>)
      else if command = pull_both_cmd then (Inr [], w\<lparr>checked_out := ''public''\<rparr>)
      else if command = push_cmd then (Inr [], w)
      else if prefix cherry_pick_prefix command then
        (case js_split (drop (length cherry_pick_prefix) command) ''..'' of
           [a, b] \<Rightarrow>
             (case cherry_pick_range w a b of
                [] \<Rightarrow> (Inl (failed command), w)
              | picked \<Rightarrow>
                  (Inr [], w\<lparr>branches :=
                     (checked_out w, picked @ log_of w (checked_out w)) # branches w\<rparr>))
         | _ \<Rightarrow> (Inl (failed command), w))
      else if prefix grep_prefix command \<and> last command = CHR 0x22 then
        (case filter (grep_w (butlast (drop (length grep_prefix) command)))
                (map pretty (log_of w (checked_out w))) of
           [] \<Rightarrow> (Inl (failed command), w)
         | ls \<Rightarrow> (Inr (join_with [NL] ls), w))
      else (Inl (failed command), w))"

fun interpolate :: "string list \<Rightarrow> string list \<Rightarrow> string" where
  "interpolate [] values = []"
| "interpolate (r # raw) [] = r @ interpolate raw []"
| "interpolate (r # raw) (v # values) = r @ v @ interpolate raw values"

definition git_env :: "repo env" where
  "git_env = \<lparr>exec = git_exec, stripAnsi = (\<lambda>s. s), chalk = (\<lambda>colour s. s),
              dedent = interpolate\<rparr>"

definition start :: "repo \<Rightarrow> repo state" where
  "start w = \<lparr>world = w, trace = [], console = []\<rparr>"

text \<open>
  A clone on the integration branch with three releases, of which the public
  mirror has the first; the same clone on another branch; and the same clone
  before the mirror has been registered.
\<close>

definition sample_repo :: repo where
  "sample_repo =
     \<lparr>checked_out = ''v3'',
      remote_names = [''origin'', ''webclient''],
      branches =
        [(''v3'', [(''c3c3'', ''Release 3.12.25''),
                   (''b2b2'', ''Release 3.12.24: fixes''),
                   (''a1a1'', ''Release 3.12.23'')]),
         (''public'', [(''f0f0'', ''Release 3.12.23'')])]\<rparr>"

definition feature_repo :: repo where
  "feature_repo = sample_repo\<lparr>checked_out := ''feature-x''\<rparr>"

definition fresh_repo :: repo where
  "fresh_repo = sample_repo\<lparr>remote_names := [''origin'']\<rparr>"

definition no_args :: argv where
  "no_args = \<lparr>help_flag = JUndefined, tag = JUndefined\<rparr>"



definition angular_pointer :: release where
  "angular_pointer = \<lparr>hash = ''c3c3'', label = ''Release 3.12.25''\<rparr>"


text \<open>An environment in which every command succeeds and prints nothing.\<close>

definition silent_env :: "repo env" where
  "silent_env = \<lparr>exec = (\<lambda>command w. (Inr [], w)), stripAnsi = (\<lambda>s. s),
                 chalk = (\<lambda>colour s. s), dedent = interpolate\<rparr>"

section \<open>The loader directive (protonLoader)\<close>

text \<open>
  The element's class list is an ordered set of tokens. The listener hands
  callbacks to \<^verbatim>\<open>_rAF\<close>, which this file does not define and which is a
  parameter here; \<open>request_frame\<close> is the browser's
  \<^verbatim>\<open>requestAnimationFrame\<close>, which queues the callback for the next animation
  frame.
\<close>

datatype callback = ClassListAdd string | ClassListRemove string

fun run_callback :: "callback \<Rightarrow> string list \<Rightarrow> string list" where
  "run_callback (ClassListAdd token) cl = (if token \<in> set cl then cl else cl @ [token])"
| "run_callback (ClassListRemove token) cl = removeAll token cl"

record page =
  classList :: "string list"
  frame_callbacks :: "callback list"

text \<open>The listener registered by \<^verbatim>\<open>link\<close> for \<^verbatim>\<open>networkActivity\<close>, given the event's type.\<close>

definition protonLoader :: "(callback \<Rightarrow> 'p \<Rightarrow> 'p) \<Rightarrow> jsval \<Rightarrow> 'p \<Rightarrow> 'p" where
  "protonLoader rAF type p =
     (let p1 = (if type = JString ''load'' then rAF (ClassListAdd ''show'') p else p)
      in if type = JString ''close'' then rAF (ClassListRemove ''show'') p1 else p1)"

definition request_frame :: "callback \<Rightarrow> page \<Rightarrow> page" where
  "request_frame cb p = p\<lparr>frame_callbacks := frame_callbacks p @ [cb]\<rparr>"

definition animation_frame :: "page \<Rightarrow> page" where
  "animation_frame p =
     p\<lparr>classList := fold run_callback (frame_callbacks p) (classList p), frame_callbacks := []\<rparr>"

section \<open>The build configuration (env/conf.build.js)\<close>

definition bindPrefix :: "string \<Rightarrow> string" where
  "bindPrefix name = ''node_modules/'' @ name"

record external_files_t =
  openpgp :: "string list"
  manifest :: "string list"

record vendor_files_t =
  js :: "string list"
  jsLazy :: "string list"
  jsLazy2 :: "string list"
  css :: "string list"
  fonts :: "string list"
  sass_include_dirs :: "string list"

record conf =
  "external_files" :: external_files_t
  vendor_files :: vendor_files_t

definition module_exports :: conf where
  "module_exports =
   \<lparr>external_files =
      \<lparr>openpgp = map bindPrefix [''openpgp/dist/openpgp.worker.min.js'', ''openpgp/dist/openpgp.min.js''],
       manifest = [''manifest.json'']\<rparr>,
    vendor_files =
      \<lparr>js = map bindPrefix
         [''jquery/dist/jquery.js'',
          ''jquery.payment/lib/jquery.payment.js'',
          ''fastclick/lib/fastclick.js'',
          ''angular/angular.js'',
          ''bootstrap-sass/assets/javascripts/bootstrap.js'',
          ''autofill-event/src/autofill-event.js'',
          ''angular-cookies/angular-cookies.js'',
          ''angular-ui-router/release/angular-ui-router.js'',
          ''angular-sanitize/angular-sanitize.js'',
          ''angular-notify/dist/angular-notify.js'',
          ''oclazyload/dist/ocLazyLoad.js'',
          ''html2canvas/dist/html2canvas.js'',
          ''svg4everybody/dist/svg4everybody.js'',
          ''angular-messages/angular-messages.js'',
          ''mousetrap/mousetrap.js'',
          ''mousetrap-pause/mousetrap-pause.js'',
          ''angular-gettext/dist/angular-gettext.js'',
          ''fingerprintjs2/fingerprint2.js'',
          ''bcryptjs/dist/bcrypt.js'',
          ''nouislider/distribute/nouislider.js'',
          ''ua-parser-js/src/ua-parser.js'',
          ''intl-tel-input/build/js/intlTelInput.js'',
          ''intl-tel-input/build/js/utils.js'',
          ''ng-intl-tel-input/dist/ng-intl-tel-input.js'',
          ''hi-base32/build/base32.min.js'',
          ''cssuseragent/cssua.js'',
          ''asmcrypto.js/asmcrypto.js'',
          ''babel-polyfill/dist/polyfill.js'',
          ''pmcrypto/build/pmcrypto.js'',
          ''dompurify/dist/purify.js'',
          ''bootstrap-sass/assets/javascripts/bootstrap.js''],
       jsLazy = map bindPrefix
         [''moment/min/moment-with-locales.js'',
          ''moment-timezone/builds/moment-timezone-with-data.js'',
          ''papaparse/papaparse.js'',
          ''ng-sortable/dist/ng-sortable.js'',
          ''pikaday/pikaday.js'',
          ''ng-pikaday/ng-pikaday.js'',
          ''jquery-timepicker/jquery.timepicker.js'',
          ''squire-rte/build/squire-raw.js'',
          ''dropzone/dist/dropzone.js'',
          ''ical.js/build/ical.js'',
          ''angular-ical/dist/js/angular-ical.js'',
          ''push.js/push.js'',
          ''awesomplete/awesomplete.js'',
          ''angular-ui-indeterminate/dist/indeterminate.js'',
          ''jquery-mousewheel/jquery.mousewheel.js'',
          ''malihu-custom-scrollbar-plugin/jquery.mCustomScrollbar.js'',
          ''ng-scrollbars/dist/scrollbars.min.js'',
          ''sieve.js/sieve.js'',
          ''blob.js/Blob.js'',
          ''file-saver/FileSaver.js'',
          ''qrcodejs2/qrcode.min.js'',
          ''pt.mailparser/mailparser.js'',
          ''markdown-it/dist/markdown-it.min.js'',
          ''clipboard/dist/clipboard.js'',
          ''angular-vs-repeat/src/angular-vs-repeat.js'',
          ''vcf/dist/vcard.js'',
          ''jszip/dist/jszip.min.js''],
       jsLazy2 = map bindPrefix
         [''codemirror/lib/codemirror.js'',
          ''codemirror/addon/display/autorefresh.js'',
          ''codemirror/mode/sieve/sieve.js'',
          ''codemirror/addon/lint/lint.js'',
          ''angular-ui-codemirror/dist/ui-codemirror.min.js''],
       css = map bindPrefix
         [''ng-sortable/dist/ng-sortable.css'',
          ''angular-notify/dist/angular-notify.css'',
          ''pikaday/css/pikaday.css'',
          ''dropzone/dist/dropzone.css'',
          ''awesomplete/awesomplete.css'',
          ''nouislider/distribute/nouislider.css'',
          ''malihu-custom-scrollbar-plugin/jquery.mCustomScrollbar.css'',
          ''codemirror/lib/codemirror.css'',
          ''codemirror/addon/lint/lint.css''],
       fonts = map bindPrefix [''components-font-awesome/fonts/*''],
       sass_include_dirs = map bindPrefix
         [''bourbon/dist'', ''bootstrap-sass-official/assets/stylesheets'']\<rparr>\<rparr>"

text \<open>Every path of the configuration that \<^verbatim>\<open>bindPrefix\<close> has been mapped over.\<close>

definition prefixed_paths :: "conf \<Rightarrow> string list" where
  "prefixed_paths c =
     js (vendor_files c) @ jsLazy (vendor_files c) @ jsLazy2 (vendor_files c)
     @ css (vendor_files c) @ fonts (vendor_files c) @ sass_include_dirs (vendor_files c)
     @ openpgp (external_files c)"

section \<open>Properties of the synchronisation script\<close>

subsection \<open>Running the steps\<close>

lemmas cmd_defs = current_branch_cmd_def has_remote_cmd_def add_remote_cmd_def latest_commit_cmd_def
  public_subject_cmd_def checkout_v3_quiet_def pull_both_cmd_def push_cmd_def join_with_def
  cherry_pick_cmd_def commit_by_name_cmd_def cherry_pick_prefix_def grep_prefix_def




lemma success_run:
  "success E msg s = (Inr (), s\<lparr>console := console s @ [[chalk E ''green'' check_mark @ '' '' @ msg @ ''.'']]\<rparr>)"
  by (simp add: success_def console_log_def)

lemma isDeployAbleBranch_run:
  "exec E current_branch_cmd (world s) = (Inr out, w') \<Longrightarrow>
   isDeployAbleBranch E s =
     (if first_line E out \<noteq> ''v3'' then Inl (Error ''You must be on V3 to sync the webclient'') else Inr (),
      s\<lparr>world := w', trace := trace s @ [current_branch_cmd]\<rparr>)"
  by (simp add: isDeployAbleBranch_def bind_def exec_cmd_def throw_def return_def)

lemma report_run:
  "report E e s = (Inr (), s\<lparr>console := console s @
      [[chalk E ''magentaBright'' ('' '' @ glyph_warning @ '' ''), chalk E ''red'' (message e)],
       [], [help_msg E]]\<rparr>)"
  by (simp add: report_def bind_def console_log_def help_fn_def)

lemma syncWebclient_success:
  assumes "exec E pull_both_cmd (world s) = (Inr o1, w1)"
      and "exec E (cherry_pick_cmd (hash p) (hash q)) w1 = (Inr o2, w2)"
      and "exec E push_cmd w2 = (Inr o3, w3)"
      and "exec E checkout_v3_quiet w3 = (Inr o4, w4)"
  shows "syncWebclient E p q s =
           (Inr (), s\<lparr>world := w4,
                      trace := trace s @ [pull_both_cmd, cherry_pick_cmd (hash p) (hash q),
                                          push_cmd, checkout_v3_quiet],
                      console := console s @ [[chalk E ''green'' check_mark @ '' Sync webclient.'']]\<rparr>)"
  using assms
  by (simp add: syncWebclient_def commandeVerbose_def bind_def exec_cmd_def return_def
                success_def console_log_def)

lemma syncWebclient_cherry_pick_fails:
  assumes "exec E pull_both_cmd (world s) = (Inr o1, w1)"
      and "exec E (cherry_pick_cmd (hash p) (hash q)) w1 = (Inl e, w2)"
  shows "syncWebclient E p q s =
           (Inl e, s\<lparr>world := w2,
                     trace := trace s @ [pull_both_cmd, cherry_pick_cmd (hash p) (hash q)]\<rparr>)"
  using assms
  by (simp add: syncWebclient_def commandeVerbose_def bind_def exec_cmd_def return_def)


lemma cmds_distinct: "has_remote_cmd \<noteq> add_remote_cmd"
  by (simp add: cmd_defs)

lemma hasPublicRemote_present:
  assumes "exec E has_remote_cmd (world s) = (Inr out, w')"
  shows "hasPublicRemote E s =
           (Inr (), s\<lparr>world := w', trace := trace s @ [has_remote_cmd],
                      console := console s @ [[chalk E ''green'' check_mark @ '' Public remote exists.'']]\<rparr>)"
  using assms
  by (simp add: hasPublicRemote_def try_catch_def bind_def exec_cmd_def success_run)

lemma hasPublicRemote_bootstrap:
  assumes "exec E has_remote_cmd (world s) = (Inl e, w1)"
      and "exec E add_remote_cmd w1 = (Inr out, w2)"
  shows "hasPublicRemote E s =
           (Inr (), s\<lparr>world := w2, trace := trace s @ [has_remote_cmd, add_remote_cmd],
                      console := console s @ [[chalk E ''green'' check_mark @ '' Add public remote.'']]\<rparr>)"
  using assms
  by (simp add: hasPublicRemote_def addPublicRemote_def try_catch_def bind_def exec_cmd_def success_run)

lemma hasPublicRemote_bootstrap_fails:
  assumes "exec E has_remote_cmd (world s) = (Inl e, w1)"
      and "exec E add_remote_cmd w1 = (Inl e', w2)"
  shows "hasPublicRemote E s =
           (Inl e', s\<lparr>world := w2, trace := trace s @ [has_remote_cmd, add_remote_cmd]\<rparr>)"
  using assms
  by (simp add: hasPublicRemote_def addPublicRemote_def try_catch_def bind_def exec_cmd_def)

lemma hasPublicRemote_at_most_one:
  "count_list (trace (snd (hasPublicRemote E s))) add_remote_cmd \<le> count_list (trace s) add_remote_cmd + 1"
proof (cases "exec E has_remote_cmd (world s)")
  case (Pair r w1)
  show ?thesis
  proof (cases r)
    case (Inr out)
    with Pair show ?thesis by (simp add: hasPublicRemote_present cmds_distinct)
  next
    case (Inl e)
    show ?thesis
    proof (cases "exec E add_remote_cmd w1")
      case (Pair r2 w2)
      with Inl \<open>exec E has_remote_cmd (world s) = (r, w1)\<close> show ?thesis
        by (cases r2) (simp_all add: hasPublicRemote_bootstrap hasPublicRemote_bootstrap_fails cmds_distinct)
    qed
  qed
qed

lemma getLatestCommit_run:
  "exec E latest_commit_cmd (world s) = (Inr out, w') \<Longrightarrow>
   getLatestCommit E s =
     (Inr (hash_label (first_line E out)), s\<lparr>world := w', trace := trace s @ [latest_commit_cmd]\<rparr>)"
  by (simp add: getLatestCommit_def bind_def exec_cmd_def return_def)

lemma getLatestCommit_fails:
  "exec E latest_commit_cmd (world s) = (Inl e, w') \<Longrightarrow>
   getLatestCommit E s = (Inl e, s\<lparr>world := w', trace := trace s @ [latest_commit_cmd]\<rparr>)"
  by (simp add: getLatestCommit_def bind_def exec_cmd_def)

lemma getCommitByName_run:
  "exec E (commit_by_name_cmd (toString name)) (world s) = (Inr out, w') \<Longrightarrow>
   getCommitByName E name s =
     (Inr (hash_label (first_line E out)),
      s\<lparr>world := w', trace := trace s @ [commit_by_name_cmd (toString name)]\<rparr>)"
  by (simp add: getCommitByName_def bind_def exec_cmd_def return_def)

lemma getCommitByName_fails:
  "exec E (commit_by_name_cmd (toString name)) (world s) = (Inl e, w') \<Longrightarrow>
   getCommitByName E name s =
     (Inl e, s\<lparr>world := w', trace := trace s @ [commit_by_name_cmd (toString name)]\<rparr>)"
  by (simp add: getCommitByName_def bind_def exec_cmd_def)












subsection \<open>Reading the log format back\<close>

lemma split_from_no_occurrence:
  "sep \<noteq> [] \<Longrightarrow> \<not> occurs sep s \<Longrightarrow> split_from sep acc s = [rev acc @ s]"
  by (induction s arbitrary: acc) auto





lemma hash_label_no_separator:
  "\<not> occurs ''---'' l \<Longrightarrow> hash_label l = \<lparr>hash = l, label = []\<rparr>"
  using split_from_no_occurrence [of "''---''" l "[]"]
  by (simp add: hash_label_def js_split_def element_or_empty_def)




subsection \<open>Running the reference environment\<close>

lemma git_env_sel:
  "exec git_env = git_exec" "stripAnsi git_env = (\<lambda>s. s)" "chalk git_env = (\<lambda>colour s. s)"
  by (simp_all add: git_env_def)

lemma git_current_branch: "git_exec current_branch_cmd w = (Inr (checked_out w @ [NL]), w)"
  by (simp add: git_exec_def)


lemma git_pull_both: "git_exec pull_both_cmd w = (Inr [], w\<lparr>checked_out := ''public''\<rparr>)"
  by (simp add: git_exec_def cmd_defs)




lemma git_cherry_pick_equal:
  "git_exec (cherry_pick_cmd (hash angular_pointer) (hash angular_pointer))
     (sample_repo\<lparr>checked_out := ''public''\<rparr>) =
     (Inl (failed (cherry_pick_cmd ''c3c3'' ''c3c3'')), sample_repo\<lparr>checked_out := ''public''\<rparr>)"
  by (simp add: git_exec_def cmd_defs sample_repo_def js_split_def cherry_pick_range_def log_of_def
                angular_pointer_def)


lemma git_sync_equal:
  "syncWebclient git_env angular_pointer angular_pointer (start sample_repo) =
     (Inl (failed (cherry_pick_cmd ''c3c3'' ''c3c3'')),
      \<lparr>world = sample_repo\<lparr>checked_out := ''public''\<rparr>,
       trace = [pull_both_cmd, cherry_pick_cmd ''c3c3'' ''c3c3''], console = []\<rparr>)"
proof -
  have 1: "exec git_env pull_both_cmd (world (start sample_repo))
             = (Inr [], sample_repo\<lparr>checked_out := ''public''\<rparr>)"
    by (simp add: git_env_sel start_def git_pull_both)
  have 2: "exec git_env (cherry_pick_cmd (hash angular_pointer) (hash angular_pointer))
             (sample_repo\<lparr>checked_out := ''public''\<rparr>) =
           (Inl (failed (cherry_pick_cmd ''c3c3'' ''c3c3'')), sample_repo\<lparr>checked_out := ''public''\<rparr>)"
    by (simp add: git_env_sel git_cherry_pick_equal)
  show ?thesis
    using syncWebclient_cherry_pick_fails [OF 1 2]
    by (simp add: start_def angular_pointer_def)
qed

lemma git_has_remote:
  "git_exec has_remote_cmd w =
     (if ''webclient'' \<in> set (remote_names w) then (Inr (''webclient'' @ [NL]), w)
      else (Inl (failed has_remote_cmd), w))"
  by (simp add: git_exec_def cmd_defs)

lemma git_add_remote:
  "git_exec add_remote_cmd w =
     (if ''webclient'' \<in> set (remote_names w) then (Inl (failed add_remote_cmd), w)
      else (Inr [], w\<lparr>checked_out := ''public'', remote_names := remote_names w @ [''webclient'']\<rparr>))"
  by (simp add: git_exec_def cmd_defs)

lemma git_bootstrap_contract:
  "exec git_env add_remote_cmd w = (Inr out, w') \<Longrightarrow>
     \<exists>out' w''. exec git_env has_remote_cmd w' = (Inr out', w'')"
  by (auto simp add: git_env_sel git_has_remote git_add_remote split: if_splits)

lemma git_latest:
  "git_exec latest_commit_cmd w =
     (case log_of w (checked_out w) of
        [] \<Rightarrow> (Inl (failed latest_commit_cmd), w)
      | c # _ \<Rightarrow> (Inr (pretty c), w))"
  by (simp add: git_exec_def cmd_defs split: list.splits)


lemma grep_cmd_shape:
  "prefix grep_prefix (commit_by_name_cmd name)"
  "last (commit_by_name_cmd name) = CHR 0x22"
  "butlast (drop (length grep_prefix) (commit_by_name_cmd name)) = name"
  "\<not> prefix cherry_pick_prefix (commit_by_name_cmd name)"
  by (simp_all add: commit_by_name_cmd_def grep_prefix_def cherry_pick_prefix_def butlast_append)

lemma grep_cmd_distinct:
  "commit_by_name_cmd name \<noteq> current_branch_cmd"
  "commit_by_name_cmd name \<noteq> has_remote_cmd"
  "commit_by_name_cmd name \<noteq> add_remote_cmd"
  "commit_by_name_cmd name \<noteq> latest_commit_cmd"
  "commit_by_name_cmd name \<noteq> public_subject_cmd"
  "commit_by_name_cmd name \<noteq> checkout_v3_quiet"
  "commit_by_name_cmd name \<noteq> pull_both_cmd"
  "commit_by_name_cmd name \<noteq> push_cmd"
  by (simp_all add: cmd_defs)

lemma git_grep:
  "git_exec (commit_by_name_cmd name) w =
     (case filter (grep_w name) (map pretty (log_of w (checked_out w))) of
        [] \<Rightarrow> (Inl (failed (commit_by_name_cmd name)), w)
      | l # ls \<Rightarrow> (Inr (join_with [NL] (l # ls)), w))"
  by (simp add: git_exec_def grep_cmd_shape grep_cmd_distinct split: list.splits)

lemma grep_sample_none:
  "filter (grep_w ''3.99.0'') (map pretty (log_of sample_repo ''v3'')) = []"
  by (simp add: sample_repo_def log_of_def pretty_def grep_w_def)

lemma git_search_fails:
  "getCommitByName git_env (JString ''3.99.0'') (start sample_repo) =
     (Inl (failed (commit_by_name_cmd ''3.99.0'')),
      \<lparr>world = sample_repo, trace = [commit_by_name_cmd ''3.99.0''], console = []\<rparr>)"
proof -
  have "exec git_env (commit_by_name_cmd (toString (JString ''3.99.0''))) (world (start sample_repo))
          = (Inl (failed (commit_by_name_cmd ''3.99.0'')), sample_repo)"
    using grep_sample_none
    by (simp add: git_env_sel git_grep start_def) (simp add: sample_repo_def)
  from getCommitByName_fails [OF this] show ?thesis
    by (simp add: start_def)
qed

lemma silent_first_line: "first_line silent_env [] = []"
  by (simp add: first_line_def silent_env_def js_split_def element_or_empty_def)







lemma log_of_checked_out: "log_of (w\<lparr>checked_out := b\<rparr>) x = log_of w x"
  by (simp add: log_of_def)
















subsection \<open>The precondition\<close>

text \<open>
  C1. Let the branch query answer with a branch name. When the name is not
  \<^verbatim>\<open>v3\<close>, \<open>isDeployAbleBranch\<close> throws the error with the message
  \<^verbatim>\<open>You must be on V3 to sync the webclient\<close>, the workflow stops there, and the
  run has handed a single command to \<open>exec\<close>, the branch query: no remote setup,
  checkout, cherry-pick or push runs, and the process exits with status 1.
  When the name is \<^verbatim>\<open>v3\<close>, \<open>isDeployAbleBranch\<close> returns without error.
\<close>

theorem wrong_branch_aborts:
  assumes "exec E current_branch_cmd (world s) = (Inr out, w')"
  shows "(first_line E out = ''v3'' \<longrightarrow>
            isDeployAbleBranch E s = (Inr (), s\<lparr>world := w', trace := trace s @ [current_branch_cmd]\<rparr>))
       \<and> (first_line E out \<noteq> ''v3'' \<longrightarrow>
            isDeployAbleBranch E s =
              (Inl (Error ''You must be on V3 to sync the webclient''),
               s\<lparr>world := w', trace := trace s @ [current_branch_cmd]\<rparr>)
          \<and> workflow E av s = isDeployAbleBranch E s
          \<and> (\<not> truthy (help_flag av) \<longrightarrow>
                fst (main E av s) = 1
              \<and> world (snd (main E av s)) = w'
              \<and> trace (snd (main E av s)) = trace s @ [current_branch_cmd]))"
  using isDeployAbleBranch_run [OF assms]
  by (simp add: workflow_def main_def bind_def report_run)

theorem wrong_branch_aborts_witness:
  "exec git_env current_branch_cmd (world (start feature_repo)) = (Inr (''feature-x'' @ [NL]), feature_repo)
   \<and> first_line git_env (''feature-x'' @ [NL]) = ''feature-x''
   \<and> isDeployAbleBranch git_env (start feature_repo) =
       (Inl (Error ''You must be on V3 to sync the webclient''),
        \<lparr>world = feature_repo, trace = [current_branch_cmd], console = []\<rparr>)
   \<and> fst (main git_env no_args (start feature_repo)) = 1
   \<and> trace (snd (main git_env no_args (start feature_repo))) = [current_branch_cmd]
   \<and> exec git_env current_branch_cmd (world (start sample_repo)) = (Inr (''v3'' @ [NL]), sample_repo)
   \<and> isDeployAbleBranch git_env (start sample_repo) =
       (Inr (), \<lparr>world = sample_repo, trace = [current_branch_cmd], console = []\<rparr>)"
proof -
  have a: "exec git_env current_branch_cmd (world (start feature_repo)) = (Inr (''feature-x'' @ [NL]), feature_repo)"
    by (simp add: git_env_sel git_current_branch start_def feature_repo_def)
  have b: "exec git_env current_branch_cmd (world (start sample_repo)) = (Inr (''v3'' @ [NL]), sample_repo)"
    by (simp add: git_env_sel git_current_branch start_def sample_repo_def)
  have c: "first_line git_env (''feature-x'' @ [NL]) = ''feature-x''"
    by (simp add: first_line_def git_env_sel js_split_def element_or_empty_def)
  have d: "first_line git_env (''v3'' @ [NL]) = ''v3''"
    by (simp add: first_line_def git_env_sel js_split_def element_or_empty_def)
  show ?thesis
    using wrong_branch_aborts [OF a, of no_args] wrong_branch_aborts [OF b, of no_args] a b c d
    by (simp add: no_args_def start_def)
qed

subsection \<open>The remote bootstrap\<close>

text \<open>
  C5. \<open>hasPublicRemote\<close> is idempotent. In an environment where the check for
  the remote succeeds once the bootstrap command has succeeded, two calls in a
  row run the bootstrap command at most once. When the check succeeds, the
  call runs the check and nothing else; and when the first call has run the
  bootstrap, the second call runs the check only.
\<close>

theorem hasPublicRemote_idempotent:
  assumes "\<And>w out w'. exec E add_remote_cmd w = (Inr out, w') \<Longrightarrow>
             \<exists>out' w''. exec E has_remote_cmd w' = (Inr out', w'')"
  shows "count_list (trace (snd (bind (hasPublicRemote E) (\<lambda>_. hasPublicRemote E) s))) add_remote_cmd
           \<le> count_list (trace s) add_remote_cmd + 1
       \<and> (\<forall>out w'. exec E has_remote_cmd (world s) = (Inr out, w') \<longrightarrow>
             trace (snd (hasPublicRemote E s)) = trace s @ [has_remote_cmd])
       \<and> (\<forall>e w1 out w2. exec E has_remote_cmd (world s) = (Inl e, w1)
                          \<and> exec E add_remote_cmd w1 = (Inr out, w2) \<longrightarrow>
             trace (snd (bind (hasPublicRemote E) (\<lambda>_. hasPublicRemote E) s))
               = trace s @ [has_remote_cmd, add_remote_cmd, has_remote_cmd])"
proof (intro conjI allI impI)
  fix out w' assume "exec E has_remote_cmd (world s) = (Inr out, w')"
  then show "trace (snd (hasPublicRemote E s)) = trace s @ [has_remote_cmd]"
    by (simp add: hasPublicRemote_present)
next
  fix e w1 out w2
  assume a: "exec E has_remote_cmd (world s) = (Inl e, w1) \<and> exec E add_remote_cmd w1 = (Inr out, w2)"
  then obtain out' w3 where b: "exec E has_remote_cmd w2 = (Inr out', w3)"
    using assms by blast
  from a have "hasPublicRemote E s =
           (Inr (), s\<lparr>world := w2, trace := trace s @ [has_remote_cmd, add_remote_cmd],
                      console := console s @ [[chalk E ''green'' check_mark @ '' Add public remote.'']]\<rparr>)"
    by (simp add: hasPublicRemote_bootstrap)
  with b show "trace (snd (bind (hasPublicRemote E) (\<lambda>_. hasPublicRemote E) s))
               = trace s @ [has_remote_cmd, add_remote_cmd, has_remote_cmd]"
    by (simp add: bind_def hasPublicRemote_present)
next
  show "count_list (trace (snd (bind (hasPublicRemote E) (\<lambda>_. hasPublicRemote E) s))) add_remote_cmd
           \<le> count_list (trace s) add_remote_cmd + 1"
  proof (cases "exec E has_remote_cmd (world s)")
    case (Pair r w1)
    show ?thesis
    proof (cases r)
      case (Inr out)
      with Pair have "hasPublicRemote E s =
           (Inr (), s\<lparr>world := w1, trace := trace s @ [has_remote_cmd],
                      console := console s @ [[chalk E ''green'' check_mark @ '' Public remote exists.'']]\<rparr>)"
        by (simp add: hasPublicRemote_present)
      then show ?thesis
        using hasPublicRemote_at_most_one [of E "s\<lparr>world := w1, trace := trace s @ [has_remote_cmd],
                      console := console s @ [[chalk E ''green'' check_mark @ '' Public remote exists.'']]\<rparr>"]
        by (simp add: bind_def cmds_distinct)
    next
      case (Inl e)
      show ?thesis
      proof (cases "exec E add_remote_cmd w1")
        case (Pair r2 w2)
        note add = this
        show ?thesis
        proof (cases r2)
          case (Inl e')
          with add \<open>r = Inl e\<close> \<open>exec E has_remote_cmd (world s) = (r, w1)\<close> show ?thesis
            by (simp add: bind_def hasPublicRemote_bootstrap_fails cmds_distinct)
        next
          case (Inr out)
          with add obtain out' w3 where b: "exec E has_remote_cmd w2 = (Inr out', w3)"
            using assms by blast
          from Inr add \<open>r = Inl e\<close> \<open>exec E has_remote_cmd (world s) = (r, w1)\<close>
          have "hasPublicRemote E s =
             (Inr (), s\<lparr>world := w2, trace := trace s @ [has_remote_cmd, add_remote_cmd],
                      console := console s @ [[chalk E ''green'' check_mark @ '' Add public remote.'']]\<rparr>)"
            by (simp add: hasPublicRemote_bootstrap)
          with b show ?thesis
            by (simp add: bind_def hasPublicRemote_present cmds_distinct)
        qed
      qed
    qed
  qed
qed

theorem hasPublicRemote_idempotent_witness:
  "exec git_env has_remote_cmd (world (start fresh_repo)) = (Inl (failed has_remote_cmd), fresh_repo)
   \<and> exec git_env add_remote_cmd fresh_repo
        = (Inr [], fresh_repo\<lparr>checked_out := ''public'', remote_names := [''origin'', ''webclient'']\<rparr>)
   \<and> trace (snd (bind (hasPublicRemote git_env) (\<lambda>_. hasPublicRemote git_env) (start fresh_repo)))
        = [has_remote_cmd, add_remote_cmd, has_remote_cmd]
   \<and> exec git_env has_remote_cmd (world (start sample_repo)) = (Inr (''webclient'' @ [NL]), sample_repo)
   \<and> trace (snd (hasPublicRemote git_env (start sample_repo))) = [has_remote_cmd]"
proof -
  have a: "exec git_env has_remote_cmd (world (start fresh_repo)) = (Inl (failed has_remote_cmd), fresh_repo)"
    by (simp add: git_env_sel git_has_remote start_def fresh_repo_def sample_repo_def)
  have b: "exec git_env add_remote_cmd fresh_repo
        = (Inr [], fresh_repo\<lparr>checked_out := ''public'', remote_names := [''origin'', ''webclient'']\<rparr>)"
    by (simp add: git_env_sel git_add_remote fresh_repo_def sample_repo_def)
  have c: "exec git_env has_remote_cmd (world (start sample_repo)) = (Inr (''webclient'' @ [NL]), sample_repo)"
    by (simp add: git_env_sel git_has_remote start_def sample_repo_def)
  show ?thesis
    using hasPublicRemote_idempotent [of git_env "start fresh_repo", OF git_bootstrap_contract]
          hasPublicRemote_idempotent [of git_env "start sample_repo", OF git_bootstrap_contract]
          a b c
    by (simp add: start_def)
qed

subsection \<open>Release resolution\<close>

text \<open>
  C7, as the specification states it, fails: in the reference environment no
  commit of the sample clone mentions \<^verbatim>\<open>3.99.0\<close>, the search command fails, and
  \<open>getCommitByName\<close> raises that error instead of returning a pointer with
  empty fields.
\<close>

theorem unresolved_name_rejects:
  "getCommitByName git_env (JString ''3.99.0'') (start sample_repo) =
     (Inl (failed (commit_by_name_cmd ''3.99.0'')),
      \<lparr>world = sample_repo, trace = [commit_by_name_cmd ''3.99.0''], console = []\<rparr>)"
  by (rule git_search_fails)

text \<open>
  C7, amended. For \<open>getLatestCommit\<close> and \<open>getCommitByName\<close>: when the
  command fails, the call raises the command's error and returns no pointer.
  When the command returns, the call raises nothing and returns a pointer
  with both fields present, read from the first line of the output; a field
  the line does not have is the empty string: the label when the line has no
  \<^verbatim>\<open>---\<close>, and both fields when the line is empty.
\<close>

theorem resolution_degrades_or_rejects:
  "(\<forall>e w'. exec E latest_commit_cmd (world s) = (Inl e, w') \<longrightarrow>
      getLatestCommit E s = (Inl e, s\<lparr>world := w', trace := trace s @ [latest_commit_cmd]\<rparr>))
   \<and> (\<forall>out w'. exec E latest_commit_cmd (world s) = (Inr out, w') \<longrightarrow>
      getLatestCommit E s =
        (Inr (hash_label (first_line E out)), s\<lparr>world := w', trace := trace s @ [latest_commit_cmd]\<rparr>)
      \<and> (\<not> occurs ''---'' (first_line E out) \<longrightarrow>
            fst (getLatestCommit E s) = Inr \<lparr>hash = first_line E out, label = []\<rparr>)
      \<and> (first_line E out = [] \<longrightarrow> fst (getLatestCommit E s) = Inr \<lparr>hash = [], label = []\<rparr>))
   \<and> (\<forall>e w'. exec E (commit_by_name_cmd (toString name)) (world s) = (Inl e, w') \<longrightarrow>
      getCommitByName E name s =
        (Inl e, s\<lparr>world := w', trace := trace s @ [commit_by_name_cmd (toString name)]\<rparr>))
   \<and> (\<forall>out w'. exec E (commit_by_name_cmd (toString name)) (world s) = (Inr out, w') \<longrightarrow>
      getCommitByName E name s =
        (Inr (hash_label (first_line E out)),
         s\<lparr>world := w', trace := trace s @ [commit_by_name_cmd (toString name)]\<rparr>)
      \<and> (\<not> occurs ''---'' (first_line E out) \<longrightarrow>
            fst (getCommitByName E name s) = Inr \<lparr>hash = first_line E out, label = []\<rparr>)
      \<and> (first_line E out = [] \<longrightarrow> fst (getCommitByName E name s) = Inr \<lparr>hash = [], label = []\<rparr>))"
  by (auto simp add: getLatestCommit_run getLatestCommit_fails getCommitByName_run getCommitByName_fails
                hash_label_no_separator)

theorem resolution_degrades_or_rejects_witness:
  "exec git_env (commit_by_name_cmd (toString (JString ''3.99.0''))) (world (start sample_repo))
     = (Inl (failed (commit_by_name_cmd ''3.99.0'')), sample_repo)
   \<and> fst (getCommitByName git_env (JString ''3.99.0'') (start sample_repo))
       = Inl (failed (commit_by_name_cmd ''3.99.0''))
   \<and> exec git_env latest_commit_cmd (world (start feature_repo))
       = (Inl (failed latest_commit_cmd), feature_repo)
   \<and> fst (getLatestCommit git_env (start feature_repo)) = Inl (failed latest_commit_cmd)
   \<and> exec silent_env latest_commit_cmd (world (start sample_repo)) = (Inr [], sample_repo)
   \<and> first_line silent_env [] = []
   \<and> fst (getLatestCommit silent_env (start sample_repo)) = Inr \<lparr>hash = [], label = []\<rparr>
   \<and> fst (getCommitByName silent_env (JString ''3.99.0'') (start sample_repo)) = Inr \<lparr>hash = [], label = []\<rparr>"
proof -
  have a: "exec git_env (commit_by_name_cmd (toString (JString ''3.99.0''))) (world (start sample_repo))
          = (Inl (failed (commit_by_name_cmd ''3.99.0'')), sample_repo)"
    using grep_sample_none
    by (simp add: git_env_sel git_grep start_def) (simp add: sample_repo_def)
  have b: "exec silent_env c (world (start sample_repo)) = (Inr [], sample_repo)" for c
    by (simp add: silent_env_def start_def)
  have c: "exec git_env latest_commit_cmd (world (start feature_repo))
             = (Inl (failed latest_commit_cmd), feature_repo)"
    by (simp add: git_env_sel git_latest start_def feature_repo_def sample_repo_def log_of_def)
  show ?thesis
    using resolution_degrades_or_rejects [of git_env "start sample_repo" "JString ''3.99.0''"]
          resolution_degrades_or_rejects [of git_env "start feature_repo" "JString ''3.99.0''"]
          resolution_degrades_or_rejects [of silent_env "start sample_repo" "JString ''3.99.0''"]
          a b c silent_first_line
    by (simp add: hash_label_def js_split_def element_or_empty_def)
qed





subsection \<open>Ending on the integration branch\<close>



text \<open>
  C8, as the specification states it, fails: with equal hashes the reference
  environment rejects the cherry-pick of the range without commits, and
  \<open>syncWebclient\<close> fails with that error after two commands.
\<close>

theorem equal_hashes_fail:
  "syncWebclient git_env angular_pointer angular_pointer (start sample_repo) =
     (Inl (failed (cherry_pick_cmd ''c3c3'' ''c3c3'')),
      \<lparr>world = sample_repo\<lparr>checked_out := ''public''\<rparr>,
       trace = [pull_both_cmd, cherry_pick_cmd ''c3c3'' ''c3c3''], console = []\<rparr>)"
  by (rule git_sync_equal)

text \<open>
  C8, amended. With equal hashes \<open>h\<close>, \<open>syncWebclient\<close> hands the range
  \<^verbatim>\<open>h..h\<close> to \<^verbatim>\<open>git cherry-pick\<close> as it does any other range and has no case
  of its own for it: when that command fails, \<open>syncWebclient\<close> fails with its
  error, and neither the push nor the final checkout runs; when that command
  and the two after it succeed, \<open>syncWebclient\<close> completes normally.
\<close>

theorem equal_hashes_no_special_case:
  assumes "hash webclientRelease = hash angularRelease"
      and "exec E pull_both_cmd (world s) = (Inr o1, w1)"
  shows "(\<forall>e w2. exec E (cherry_pick_cmd (hash angularRelease) (hash angularRelease)) w1 = (Inl e, w2) \<longrightarrow>
            syncWebclient E webclientRelease angularRelease s =
              (Inl e, s\<lparr>world := w2,
                        trace := trace s @ [pull_both_cmd,
                                  cherry_pick_cmd (hash angularRelease) (hash angularRelease)]\<rparr>))
       \<and> (\<forall>o2 w2 o3 w3 o4 w4.
            exec E (cherry_pick_cmd (hash angularRelease) (hash angularRelease)) w1 = (Inr o2, w2)
            \<and> exec E push_cmd w2 = (Inr o3, w3) \<and> exec E checkout_v3_quiet w3 = (Inr o4, w4) \<longrightarrow>
            syncWebclient E webclientRelease angularRelease s =
              (Inr (), s\<lparr>world := w4,
                         trace := trace s @ [pull_both_cmd,
                                   cherry_pick_cmd (hash angularRelease) (hash angularRelease),
                                   push_cmd, checkout_v3_quiet],
                         console := console s @ [[chalk E ''green'' check_mark @ '' Sync webclient.'']]\<rparr>))"
  using assms syncWebclient_cherry_pick_fails [of E s o1 w1 webclientRelease angularRelease]
        syncWebclient_success [of E s o1 w1 webclientRelease angularRelease]
  by simp

theorem equal_hashes_no_special_case_witness:
  "hash angular_pointer = hash angular_pointer
   \<and> exec git_env pull_both_cmd (world (start sample_repo))
        = (Inr [], sample_repo\<lparr>checked_out := ''public''\<rparr>)
   \<and> exec git_env (cherry_pick_cmd (hash angular_pointer) (hash angular_pointer))
          (sample_repo\<lparr>checked_out := ''public''\<rparr>)
        = (Inl (failed (cherry_pick_cmd ''c3c3'' ''c3c3'')), sample_repo\<lparr>checked_out := ''public''\<rparr>)
   \<and> fst (syncWebclient git_env angular_pointer angular_pointer (start sample_repo))
        = Inl (failed (cherry_pick_cmd ''c3c3'' ''c3c3''))
   \<and> exec silent_env pull_both_cmd (world (start sample_repo)) = (Inr [], sample_repo)
   \<and> fst (syncWebclient silent_env angular_pointer angular_pointer (start sample_repo)) = Inr ()"
proof -
  have 1: "exec git_env pull_both_cmd (world (start sample_repo))
             = (Inr [], sample_repo\<lparr>checked_out := ''public''\<rparr>)"
    by (simp add: git_env_sel start_def git_pull_both)
  have 2: "exec git_env (cherry_pick_cmd (hash angular_pointer) (hash angular_pointer))
             (sample_repo\<lparr>checked_out := ''public''\<rparr>) =
           (Inl (failed (cherry_pick_cmd ''c3c3'' ''c3c3'')), sample_repo\<lparr>checked_out := ''public''\<rparr>)"
    by (simp add: git_env_sel git_cherry_pick_equal)
  have 3: "exec silent_env c w = (Inr [], w)" for c w
    by (simp add: silent_env_def)
  have 4: "exec silent_env pull_both_cmd (world (start sample_repo)) = (Inr [], sample_repo)"
    by (simp add: silent_env_def start_def)
  show ?thesis
    using equal_hashes_no_special_case [OF refl 1, of angular_pointer]
          equal_hashes_no_special_case [OF refl 4, of angular_pointer]
          1 2 3 4
    by simp
qed

subsection \<open>The driver\<close>



section \<open>Properties of the build configuration\<close>

lemma bindPrefix_prefix: "prefix ''node_modules/'' (bindPrefix name)"
  by (simp add: bindPrefix_def)

text \<open>
  C10. Every path of \<open>vendor_files\<close> (js, jsLazy, jsLazy2, css, fonts,
  sass_include_dirs) and of \<open>external_files.openpgp\<close> begins with
  \<^verbatim>\<open>node_modules/\<close>; \<open>external_files.manifest\<close> is exactly the one path
  \<^verbatim>\<open>manifest.json\<close>, which has no such prefix.
\<close>

theorem build_paths_prefixed:
  "list_all (prefix ''node_modules/'') (prefixed_paths module_exports)
   \<and> manifest (external_files module_exports) = [''manifest.json'']
   \<and> \<not> prefix ''node_modules/'' ''manifest.json''"
  by (simp add: prefixed_paths_def module_exports_def bindPrefix_prefix)

section \<open>Properties of the loader directive\<close>

lemma animation_frame_request:
  "classList (animation_frame (request_frame cb p))
     = run_callback cb (classList (animation_frame p))"
  by (simp add: animation_frame_def request_frame_def)

text \<open>
  C9. A \<^verbatim>\<open>networkActivity\<close> event of type \<^verbatim>\<open>'load'\<close> adds \<^verbatim>\<open>show\<close> to the
  element's class list, one of type \<^verbatim>\<open>'close'\<close> removes it, and an event of
  any other type changes nothing. The class list changes when the animation
  frame that the listener requested runs.
\<close>

theorem protonLoader_show:
  "(t = JString ''load'' \<longrightarrow>
      classList (animation_frame (protonLoader request_frame t p))
        = (let cl = classList (animation_frame p) in if ''show'' \<in> set cl then cl else cl @ [''show''])
      \<and> ''show'' \<in> set (classList (animation_frame (protonLoader request_frame t p))))
   \<and> (t = JString ''close'' \<longrightarrow>
      classList (animation_frame (protonLoader request_frame t p))
        = removeAll ''show'' (classList (animation_frame p))
      \<and> ''show'' \<notin> set (classList (animation_frame (protonLoader request_frame t p))))
   \<and> (t \<noteq> JString ''load'' \<and> t \<noteq> JString ''close'' \<longrightarrow> protonLoader request_frame t p = p)"
  by (simp add: protonLoader_def animation_frame_request Let_def)

theorem protonLoader_show_witness:
  "''show'' \<in> set (classList (animation_frame (protonLoader request_frame (JString ''load'')
       \<lparr>classList = [''loader''], frame_callbacks = []\<rparr>)))
   \<and> ''show'' \<notin> set (classList (animation_frame (protonLoader request_frame (JString ''close'')
       \<lparr>classList = [''loader'', ''show''], frame_callbacks = []\<rparr>)))
   \<and> protonLoader request_frame (JString ''progress'')
         \<lparr>classList = [''loader'', ''show''], frame_callbacks = []\<rparr>
       = \<lparr>classList = [''loader'', ''show''], frame_callbacks = []\<rparr>"
  using protonLoader_show [of "JString ''load''" "\<lparr>classList = [''loader''], frame_callbacks = []\<rparr>"]
        protonLoader_show [of "JString ''close''" "\<lparr>classList = [''loader'', ''show''], frame_callbacks = []\<rparr>"]
        protonLoader_show [of "JString ''progress''" "\<lparr>classList = [''loader'', ''show''], frame_callbacks = []\<rparr>"]
  by (simp add: animation_frame_def Let_def)

end
